theory Spec2Isabelle
  imports Complex_Main "HOL-Library.Word" "HOL-Library.Multiset"
begin

section \<open>Go values used by package lbs\<close>

subsection \<open>float64\<close>

text \<open>
  A \<open>float64\<close> is modelled as a real number, one of the two infinities, or NaN.
  Arithmetic on finite values is exact real arithmetic (rounding and overflow are not
  modelled, and the two zeros are one value, taken as positive where its sign decides a
  result); on the other values it follows IEEE 754 and the special cases documented for
  Go's package \<open>math\<close>.
\<close>

datatype float64 = Num real | PInf | NInf | NaN

fun fneg :: "float64 \<Rightarrow> float64" where
  "fneg (Num x) = Num (- x)"
| "fneg PInf = NInf"
| "fneg NInf = PInf"
| "fneg NaN = NaN"

fun fadd :: "float64 \<Rightarrow> float64 \<Rightarrow> float64" where
  "fadd (Num x) (Num y) = Num (x + y)"
| "fadd NaN _ = NaN"
| "fadd _ NaN = NaN"
| "fadd PInf NInf = NaN"
| "fadd NInf PInf = NaN"
| "fadd PInf _ = PInf"
| "fadd NInf _ = NInf"
| "fadd _ PInf = PInf"
| "fadd _ NInf = NInf"

definition fsub :: "float64 \<Rightarrow> float64 \<Rightarrow> float64" where
  "fsub x y = fadd x (fneg y)"

fun fmul :: "float64 \<Rightarrow> float64 \<Rightarrow> float64" where
  "fmul (Num x) (Num y) = Num (x * y)"
| "fmul NaN _ = NaN"
| "fmul _ NaN = NaN"
| "fmul (Num x) i = (if x = 0 then NaN else if 0 < x then i else fneg i)"
| "fmul i (Num y) = (if y = 0 then NaN else if 0 < y then i else fneg i)"
| "fmul PInf i = i"
| "fmul NInf i = fneg i"

fun fdiv :: "float64 \<Rightarrow> float64 \<Rightarrow> float64" where
  "fdiv (Num x) (Num y) =
     (if y = 0 then (if x = 0 then NaN else if 0 < x then PInf else NInf)
      else Num (x / y))"
| "fdiv NaN _ = NaN"
| "fdiv _ NaN = NaN"
| "fdiv (Num x) _ = Num 0"
| "fdiv PInf (Num y) = (if 0 \<le> y then PInf else NInf)"
| "fdiv NInf (Num y) = (if 0 \<le> y then NInf else PInf)"
| "fdiv PInf PInf = NaN"
| "fdiv PInf NInf = NaN"
| "fdiv NInf PInf = NaN"
| "fdiv NInf NInf = NaN"

text \<open>The comparison \<open>x > y\<close>: false as soon as one side is NaN.\<close>

fun fgt :: "float64 \<Rightarrow> float64 \<Rightarrow> bool" where
  "fgt (Num x) (Num y) = (y < x)"
| "fgt NaN _ = False"
| "fgt _ NaN = False"
| "fgt PInf PInf = False"
| "fgt PInf _ = True"
| "fgt _ PInf = False"
| "fgt NInf _ = False"
| "fgt _ NInf = True"

fun math_Sin :: "float64 \<Rightarrow> float64" where
  "math_Sin (Num x) = Num (sin x)"
| "math_Sin _ = NaN"

fun math_Cos :: "float64 \<Rightarrow> float64" where
  "math_Cos (Num x) = Num (cos x)"
| "math_Cos _ = NaN"

text \<open>\<open>math.Pow(x, 2)\<close>, the only exponent the package uses.\<close>

fun math_Pow_2 :: "float64 \<Rightarrow> float64" where
  "math_Pow_2 (Num x) = Num (x ^ 2)"
| "math_Pow_2 NaN = NaN"
| "math_Pow_2 _ = PInf"

fun math_Sqrt :: "float64 \<Rightarrow> float64" where
  "math_Sqrt (Num x) = (if x < 0 then NaN else Num (sqrt x))"
| "math_Sqrt PInf = PInf"
| "math_Sqrt _ = NaN"

fun math_Asin :: "float64 \<Rightarrow> float64" where
  "math_Asin (Num x) = (if x < - 1 \<or> 1 < x then NaN else Num (arcsin x))"
| "math_Asin _ = NaN"

text \<open>\<open>math.Min\<close>: minus infinity wins over NaN, NaN over everything else.\<close>

fun math_Min :: "float64 \<Rightarrow> float64 \<Rightarrow> float64" where
  "math_Min NInf _ = NInf"
| "math_Min _ NInf = NInf"
| "math_Min NaN _ = NaN"
| "math_Min _ NaN = NaN"
| "math_Min (Num x) (Num y) = Num (min x y)"
| "math_Min PInf y = y"
| "math_Min x PInf = x"

subsection \<open>Panics and results\<close>

text \<open>
  A Go function either panics at run time or returns. The two panics the package can
  raise are an index out of range and the dereference of a nil pointer.
\<close>

datatype panic = IndexOutOfRange | NilDereference

datatype 'a outcome = Panic panic | Return 'a

text \<open>
  The values of type \<open>error\<close>: the two package variables, and whatever the store driver
  reports (kept by its message).
\<close>

datatype error = ErrEmptyRequest | ErrNotFound | StoreError string

section \<open>Data model\<close>

text \<open>
  \<open>Key\<close> and \<open>Data\<close> are the two structs of the package. The fields of \<open>Key\<close> are named
  here by their bson tags, the names they have in a stored document (the Go names are
  those of the request's fields). A stored coordinate or range is a finite \<open>float64\<close>
  (data model of the specification), hence a real. The same data model makes a stored
  range non-negative; the theorems on the accuracy radius take that as a hypothesis.
\<close>

record Key =
  radio :: string
  mcc :: "16 word"
  mnc :: "16 word"
  lac :: "16 word"
  cell :: "32 word"

text \<open>\<open>geo.Point\<close>: a longitude and a latitude, in degrees.\<close>

record Point =
  Longitude :: real
  Latitude :: real

record Data =
  Location :: Point
  Accuracy :: real

text \<open>
  The request and response types of package \<open>locator\<close>, with the fields this package
  reads or writes. \<open>CellTowers\<close> is a slice of pointers (\<open>[]*locator.CellTower\<close> in the
  package's test), so an element can be nil: \<open>None\<close>. Of the wifi access points only the
  number is used; one is modelled by its address. The response is flattened: \<open>Lat\<close> and
  \<open>Lng\<close> are the fields of its \<open>Location\<close>, and \<open>resp_Accuracy\<close> is its \<open>Accuracy\<close>
  (the name \<open>Accuracy\<close> stays with \<open>Data\<close>).
\<close>

record CellTower =
  MobileCountryCode :: "16 word"
  MobileNetworkCode :: "16 word"
  LocationAreaCode :: "16 word"
  CellId :: "32 word"
  SignalStrength :: int

record Request =
  HomeMobileCountryCode :: "16 word"
  HomeMobileNetworkCode :: "16 word"
  RadioType :: string
  CellTowers :: "CellTower option list"
  WifiAccessPoints :: "string list"

record Response =
  Lat :: float64
  Lng :: float64
  resp_Accuracy :: float64

definition DefaultRadioType :: string where
  "DefaultRadioType = ''gsm''"

section \<open>The store\<close>

text \<open>
  The collection \<open>lbs\<close> of the MongoDB database: its documents in the order the server
  keeps them, each a key with its data. The server can fail any operation; \<open>faults\<close>
  lists what it will answer to the coming operations, first to last (\<open>Some e\<close>: the
  operation fails with message \<open>e\<close> and has no effect; an exhausted list: it succeeds).
  \<open>oplog\<close> records every operation sent to the server, oldest first.
\<close>

datatype store_op = OpEnsureIndex | OpFind | OpCount | OpRemoveAll | OpBulkRun

record store =
  docs :: "(Key \<times> Data) list"
  faults :: "string option list"
  oplog :: "store_op list"

definition send :: "store_op \<Rightarrow> store \<Rightarrow> string option \<times> store" where
  "send op s =
     (case faults s of
        [] \<Rightarrow> (None, s\<lparr>oplog := oplog s @ [op]\<rparr>)
      | f # fs \<Rightarrow> (f, s\<lparr>faults := fs, oplog := oplog s @ [op]\<rparr>))"

text \<open>
  The search document built by \<open>GetCells\<close>: \<open>radio\<close>, \<open>mcc\<close> and \<open>mnc\<close> must be equal,
  and the pair \<open>lac\<close>, \<open>cell\<close> must be one of the pairs under \<open>$or\<close> (so an empty list
  under \<open>$or\<close> matches no document).
\<close>

record search =
  q_radio :: string
  q_mcc :: "16 word"
  q_mnc :: "16 word"
  q_or :: "(16 word \<times> 32 word) list"

definition matches :: "search \<Rightarrow> Key \<Rightarrow> bool" where
  "matches q k \<longleftrightarrow>
     radio k = q_radio q \<and> mcc k = q_mcc q \<and> mnc k = q_mnc q \<and> (lac k, cell k) \<in> set (q_or q)"

text \<open>
  \<open>coll.Find(search).Select(selector).All(&cells)\<close>: the data of the matching documents,
  in store order; on failure the slice is left empty and the error is returned.
\<close>

definition coll_Find :: "store \<Rightarrow> search \<Rightarrow> (Data list \<times> error option) \<times> store" where
  "coll_Find s q =
     (case send OpFind s of
        (Some e, s') \<Rightarrow> (([], Some (StoreError e)), s')
      | (None, s') \<Rightarrow> ((map snd (filter (\<lambda>d. matches q (fst d)) (docs s')), None), s'))"

text \<open>\<open>coll.Count()\<close>: the number of documents, or 0 and the error.\<close>

definition coll_Count :: "store \<Rightarrow> (nat \<times> error option) \<times> store" where
  "coll_Count s =
     (case send OpCount s of
        (Some e, s') \<Rightarrow> ((0, Some (StoreError e)), s')
      | (None, s') \<Rightarrow> ((length (docs s'), None), s'))"

section \<open>The resolution engine\<close>

text \<open>\<open>req.CellTowers[0].f\<close>: the slice may be empty, the pointer may be nil.\<close>

definition first_tower :: "(CellTower \<Rightarrow> 'a) \<Rightarrow> CellTower option list \<Rightarrow> 'a outcome" where
  "first_tower f ts =
     (case ts of
        [] \<Rightarrow> Panic IndexOutOfRange
      | None # _ \<Rightarrow> Panic NilDereference
      | Some t # _ \<Rightarrow> Return (f t))"

text \<open>The loop that fills \<open>cellsData\<close>: one pair per tower, in request order.\<close>

fun cellsData :: "CellTower option list \<Rightarrow> (16 word \<times> 32 word) list outcome" where
  "cellsData [] = Return []"
| "cellsData (None # _) = Panic NilDereference"
| "cellsData (Some c # cs) =
     (case cellsData cs of
        Panic p \<Rightarrow> Panic p
      | Return r \<Rightarrow> Return ((LocationAreaCode c, CellId c) # r))"

definition GetCells :: "store \<Rightarrow> Request \<Rightarrow> (Data list \<times> error option) outcome \<times> store" where
  "GetCells db req =
     (if length (CellTowers req) = 0 \<and> length (WifiAccessPoints req) = 0
      then (Return ([], Some ErrEmptyRequest), db)
      else
        let radio' = (if RadioType req = [] then DefaultRadioType else RadioType req) in
        (case (if HomeMobileCountryCode req = 0
               then first_tower MobileCountryCode (CellTowers req)
               else Return (HomeMobileCountryCode req)) of
           Panic p \<Rightarrow> (Panic p, db)
         | Return mcc' \<Rightarrow>
        (case (if HomeMobileNetworkCode req = 0
               then first_tower MobileNetworkCode (CellTowers req)
               else Return (HomeMobileNetworkCode req)) of
           Panic p \<Rightarrow> (Panic p, db)
         | Return mnc' \<Rightarrow>
        (case cellsData (CellTowers req) of
           Panic p \<Rightarrow> (Panic p, db)
         | Return cd \<Rightarrow>
        (case coll_Find db \<lparr>q_radio = radio', q_mcc = mcc', q_mnc = mnc', q_or = cd\<rparr> of
           (r, db') \<Rightarrow> (Return r, db'))))))"

definition EARTH_RADIUS :: real where
  "EARTH_RADIUS = 6378137"

text \<open>The first loop of \<open>Get\<close>: the sums of the longitudes and of the latitudes.\<close>

fun sum_loop :: "Data list \<Rightarrow> float64 \<times> float64 \<Rightarrow> float64 \<times> float64" where
  "sum_loop [] (lon, lat) = (lon, lat)"
| "sum_loop (c # cells) (lon, lat) =
     sum_loop cells (fadd lon (Num (Longitude (Location c))), fadd lat (Num (Latitude (Location c))))"

text \<open>The body of the second loop up to \<open>dist\<close>, for one cell and the mean point.\<close>

definition cell_dist :: "float64 \<Rightarrow> float64 \<Rightarrow> Data \<Rightarrow> float64" where
  "cell_dist lon lat c =
     (let lat2 = Num (Latitude (Location c));
          lon2 = Num (Longitude (Location c));
          dLat = fdiv (fmul (Num (pi / 180)) (fsub lat2 lat)) (Num 2);
          dLon = fdiv (fmul (Num (pi / 180)) (fsub lon2 lon)) (Num 2);
          lat1 = fmul (Num (pi / 180)) lat;
          lat2 = fmul (Num (pi / 180)) lat2;
          a = fadd (math_Pow_2 (math_Sin dLat))
                (fmul (fmul (math_Cos lat1) (math_Cos lat2)) (math_Pow_2 (math_Sin dLon)));
          c' = math_Asin (math_Min (Num 1) (math_Sqrt a))
      in fadd (fmul (Num (2 * EARTH_RADIUS)) c') (Num (Accuracy c)))"

fun accuracy_loop :: "float64 \<Rightarrow> float64 \<Rightarrow> Data list \<Rightarrow> float64 \<Rightarrow> float64" where
  "accuracy_loop lon lat [] accuracy = accuracy"
| "accuracy_loop lon lat (c # cells) accuracy =
     (let dist = cell_dist lon lat c
      in accuracy_loop lon lat cells (if fgt dist accuracy then dist else accuracy))"

definition Get :: "store \<Rightarrow> Request \<Rightarrow> (error + Response) outcome \<times> store" where
  "Get db req =
     (case GetCells db req of
        (Panic p, db') \<Rightarrow> (Panic p, db')
      | (Return (cells, Some err), db') \<Rightarrow> (Return (Inl err), db')
      | (Return (cells, None), db') \<Rightarrow>
          (let (lon, lat) = sum_loop cells (Num 0, Num 0);
               count = Num (real (length cells));
               lon = fdiv lon count;
               lat = fdiv lat count;
               accuracy = accuracy_loop lon lat cells (Num 0)
           in (Return (Inr \<lparr>Lat = lat, Lng = lon, resp_Accuracy = accuracy\<rparr>), db')))"

text \<open>\<open>Records\<close> has no error result: it returns the count and drops the error.\<close>

definition Records :: "store \<Rightarrow> nat \<times> store" where
  "Records db = (case coll_Count db of ((n, _), db') \<Rightarrow> (n, db'))"

section \<open>The accuracy radius as the specification words it\<close>

text \<open>
  The haversine distance of two points given in degrees: convert to radians,
  \<open>a = sin\<^sup>2(\<Delta>lat/2) + cos(lat1) cos(lat2) sin\<^sup>2(\<Delta>lon/2)\<close>, \<open>c = 2 asin(min(1, \<surd>a))\<close>,
  distance \<open>R c\<close> with \<open>R\<close> = 6,378,137 meters.
\<close>

definition radians :: "real \<Rightarrow> real" where
  "radians d = d * pi / 180"

definition haversine :: "Point \<Rightarrow> Point \<Rightarrow> real" where
  "haversine p1 p2 =
     (let lat1 = radians (Latitude p1); lon1 = radians (Longitude p1);
          lat2 = radians (Latitude p2); lon2 = radians (Longitude p2);
          a = (sin ((lat2 - lat1) / 2))\<^sup>2 + cos lat1 * cos lat2 * (sin ((lon2 - lon1) / 2))\<^sup>2;
          c = 2 * arcsin (min 1 (sqrt a))
      in 6378137 * c)"

text \<open>The arithmetic mean of the matched records' coordinates.\<close>

definition mean_point :: "Data list \<Rightarrow> Point" where
  "mean_point cells =
     \<lparr>Longitude = sum_list (map (\<lambda>c. Longitude (Location c)) cells) / real (length cells),
      Latitude = sum_list (map (\<lambda>c. Latitude (Location c)) cells) / real (length cells)\<rparr>"

text \<open>
  The maximum, over the matched records, of the distance between the record's point and
  the mean point plus the record's own accuracy radius.
\<close>

definition spec_accuracy :: "Data list \<Rightarrow> real" where
  "spec_accuracy cells =
     Max ((\<lambda>c. haversine (Location c) (mean_point cells) + Accuracy c) ` set cells)"

section \<open>The import program\<close>

subsection \<open>Store operations\<close>

text \<open>
  \<open>coll.EnsureIndex\<close> declares the unique index on the five key fields. The keys of the
  collection are unique (data model), so the documents stay as they are.
\<close>

definition coll_EnsureIndex :: "store \<Rightarrow> string option \<times> store" where
  "coll_EnsureIndex s = send OpEnsureIndex s"

text \<open>\<open>coll.RemoveAll(nil)\<close> deletes every document.\<close>

definition coll_RemoveAll :: "store \<Rightarrow> string option \<times> store" where
  "coll_RemoveAll s =
     (case send OpRemoveAll s of
        (Some e, s') \<Rightarrow> (Some e, s')
      | (None, s') \<Rightarrow> (None, s'\<lparr>docs := []\<rparr>))"

text \<open>
  One staged \<open>bulk.Upsert(key, {$set: data})\<close>: the document with that key gets the new
  location and range, or a new document is added.
\<close>

fun upsert :: "Key \<Rightarrow> Data \<Rightarrow> (Key \<times> Data) list \<Rightarrow> (Key \<times> Data) list" where
  "upsert k d [] = [(k, d)]"
| "upsert k d ((k', d') # ds) = (if k' = k then (k, d) # ds else (k', d') # upsert k d ds)"

text \<open>
  \<open>bulk.Run()\<close> applies the staged upserts; the batch is unordered, the model applies it
  in staging order. A failing run is modelled as applying nothing.
\<close>

definition bulk_Run :: "(Key \<times> Data) list \<Rightarrow> store \<Rightarrow> string option \<times> store" where
  "bulk_Run ops s =
     (case send OpBulkRun s of
        (Some e, s') \<Rightarrow> (Some e, s')
      | (None, s') \<Rightarrow> (None, s'\<lparr>docs := foldl (\<lambda>ds (k, d). upsert k d ds) (docs s') ops\<rparr>))"

subsection \<open>Library functions and flags\<close>

text \<open>
  The functions of Go's \<open>strings\<close> and \<open>strconv\<close> that the row loop calls are parameters
  of the model: \<open>strings.ToLower\<close>, \<open>strconv.ParseInt(s, 10, 32)\<close>,
  \<open>strconv.ParseUint(s, 10, bits)\<close> and \<open>strconv.ParseFloat(s, 64)\<close>, each \<open>None\<close> where
  the function returns an error. \<open>ParseFloat\<close> yields the finite values of the data model.
\<close>

record env =
  strings_ToLower :: "string \<Rightarrow> string"
  strconv_ParseInt :: "string \<Rightarrow> int option"
  strconv_ParseUint :: "nat \<Rightarrow> string \<Rightarrow> 64 word option"
  strconv_ParseFloat :: "string \<Rightarrow> real option"

text \<open>
  What flag parsing leaves for the loop: the two filter maps (as the sets of their keys),
  the minimal sample count and the name of the data file.
\<close>

record flags =
  filterRadio :: "string set"
  filterCountry :: "16 word set"
  minSamples :: int
  filename :: string

text \<open>\<open>strings.Contains\<close>: the second string occurs in the first.\<close>

fun strings_Contains :: "string \<Rightarrow> string \<Rightarrow> bool" where
  "strings_Contains [] sub = (sub = [])"
| "strings_Contains (c # s) sub = (take (length sub) (c # s) = sub \<or> strings_Contains s sub)"

subsection \<open>The row loop\<close>

text \<open>\<open>record[i]\<close>: a panic when the record is too short.\<close>

definition field :: "string list \<Rightarrow> nat \<Rightarrow> string outcome" where
  "field rec i = (if i < length rec then Return (rec ! i) else Panic IndexOutOfRange)"

text \<open>
  The two ways a row leaves the loop body early: \<open>record[i]\<close> panics, and a parse
  error makes the loop \<open>continue\<close> (\<open>Return None\<close>: the row is skipped).
\<close>

definition with_field :: "string list \<Rightarrow> nat \<Rightarrow> (string \<Rightarrow> 'a outcome) \<Rightarrow> 'a outcome" where
  "with_field rec i k = (case field rec i of Panic p \<Rightarrow> Panic p | Return r \<Rightarrow> k r)"

definition or_continue :: "'a option \<Rightarrow> ('a \<Rightarrow> 'b option outcome) \<Rightarrow> 'b option outcome" where
  "or_continue v k = (case v of None \<Rightarrow> Return None | Some x \<Rightarrow> k x)"

text \<open>
  The loop body after the header check, for one record: \<open>Return None\<close> when the row is
  skipped, \<open>Return (Some (key, data))\<close> with the upsert it stages.
\<close>

definition process_row :: "env \<Rightarrow> flags \<Rightarrow> string list \<Rightarrow> (Key \<times> Data) option outcome" where
  "process_row E F rec =
     with_field rec 0 (\<lambda>r0.
     let radio' = strings_ToLower E r0 in
     if filterRadio F \<noteq> {} \<and> radio' \<notin> filterRadio F then Return None else
     with_field rec 9 (\<lambda>r9. or_continue (strconv_ParseInt E r9) (\<lambda>samples.
     if samples < minSamples F then Return None else
     with_field rec 1 (\<lambda>r1. or_continue (strconv_ParseUint E 16 r1) (\<lambda>mcc'.
     if filterCountry F \<noteq> {} \<and> ucast mcc' \<notin> filterCountry F then Return None else
     with_field rec 2 (\<lambda>r2. or_continue (strconv_ParseUint E 16 r2) (\<lambda>mnc'.
     with_field rec 3 (\<lambda>r3. or_continue (strconv_ParseUint E 16 r3) (\<lambda>area.
     with_field rec 4 (\<lambda>r4. or_continue (strconv_ParseUint E 32 r4) (\<lambda>cell'.
     with_field rec 6 (\<lambda>r6. or_continue (strconv_ParseFloat E r6) (\<lambda>lon.
     with_field rec 7 (\<lambda>r7. or_continue (strconv_ParseFloat E r7) (\<lambda>lat.
     with_field rec 8 (\<lambda>r8. or_continue (strconv_ParseFloat E r8) (\<lambda>distance.
     Return (Some
       (\<lparr>radio = radio', mcc = ucast mcc', mnc = ucast mnc', lac = ucast area, cell = ucast cell'\<rparr>,
        \<lparr>Location = \<lparr>Longitude = lon, Latitude = lat\<rparr>, Accuracy = distance\<rparr>))
     )))))))))))))))))"

text \<open>
  The state of the loop: the two counters, the staged upserts, and the reader's
  \<open>FieldsPerRecord\<close>. The file is the list of what the CSV reader finds, record by
  record: a syntax or read error (\<open>Inl\<close>) or the fields of a record; its end is \<open>io.EOF\<close>.
  The reader itself reports a record whose number of fields is not \<open>FieldsPerRecord\<close>,
  once that is positive, and sets it from the first record while it is 0.
\<close>

record loop_state =
  lines :: nat
  counter :: nat
  bulk :: "(Key \<times> Data) list"
  FieldsPerRecord :: nat

fun read_loop :: "env \<Rightarrow> flags \<Rightarrow> (string + string list) list \<Rightarrow> loop_state
    \<Rightarrow> (string + loop_state) outcome" where
  "read_loop E F [] st = Return (Inr st)"
| "read_loop E F (Inl e # rest) st = Return (Inl e)"
| "read_loop E F (Inr rec # rest) st =
     (if 0 < FieldsPerRecord st \<and> length rec \<noteq> FieldsPerRecord st
      then Return (Inl ''wrong number of fields'')
      else
        let st = (if FieldsPerRecord st = 0 then st\<lparr>FieldsPerRecord := length rec\<rparr> else st);
            st = st\<lparr>lines := lines st + 1\<rparr>
        in if lines st = 1 then read_loop E F rest (st\<lparr>FieldsPerRecord := length rec\<rparr>)
           else
             (case process_row E F rec of
                Panic p \<Rightarrow> Panic p
              | Return None \<Rightarrow> read_loop E F rest st
              | Return (Some kd) \<Rightarrow>
                  read_loop E F rest (st\<lparr>bulk := bulk st @ [kd], counter := counter st + 1\<rparr>)))"

definition loop_start :: loop_state where
  "loop_start = \<lparr>lines = 0, counter = 0, bulk = [], FieldsPerRecord = 0\<rparr>"

subsection \<open>The program\<close>

text \<open>
  How a run ends: one of the early returns of \<open>main\<close>, or its last line with the record
  count it logs.
\<close>

datatype exit =
  IndexError string | OpenError | CSVError string | NoRecords
  | DeleteError string | BulkError string | CountError error | Completed nat

text \<open>
  \<open>main\<close> from \<open>EnsureIndex\<close> on (the flags are parsed and the server is connected). The
  file is \<open>None\<close> when it cannot be opened.
\<close>

definition main :: "env \<Rightarrow> flags \<Rightarrow> (string + string list) list option \<Rightarrow> store
    \<Rightarrow> exit outcome \<times> store" where
  "main E F file s =
     (case coll_EnsureIndex s of
        (Some e, s1) \<Rightarrow> (Return (IndexError e), s1)
      | (None, s1) \<Rightarrow>
     (case file of
        None \<Rightarrow> (Return OpenError, s1)
      | Some rows \<Rightarrow>
     (case read_loop E F rows loop_start of
        Panic p \<Rightarrow> (Panic p, s1)
      | Return (Inl e) \<Rightarrow> (Return (CSVError e), s1)
      | Return (Inr st) \<Rightarrow>
          if counter st = 0 then (Return NoRecords, s1)
          else
            (case (if \<not> strings_Contains (filename F) ''diff'' then coll_RemoveAll s1
                   else (None, s1)) of
               (Some e, s2) \<Rightarrow> (Return (DeleteError e), s2)
             | (None, s2) \<Rightarrow>
            (case bulk_Run (bulk st) s2 of
               (Some e, s3) \<Rightarrow> (Return (BulkError e), s3)
             | (None, s3) \<Rightarrow>
            (case coll_Count s3 of
               ((n, Some e), s4) \<Rightarrow> (Return (CountError e), s4)
             | ((n, None), s4) \<Rightarrow> (Return (Completed n), s4)))))))"

section \<open>Sample values\<close>

text \<open>
  The tower of the round-trip property of the specification (the first tower of the
  package's test), its stored record, and a store that holds it.
\<close>

definition tower_a :: CellTower where
  "tower_a = \<lparr>MobileCountryCode = 250, MobileNetworkCode = 2, LocationAreaCode = 7743,
     CellId = 22517, SignalStrength = - 78\<rparr>"

definition key_a :: Key where
  "key_a = \<lparr>radio = ''gsm'', mcc = 250, mnc = 2, lac = 7743, cell = 22517\<rparr>"

definition data_a :: Data where
  "data_a = \<lparr>Location = \<lparr>Longitude = 37.6, Latitude = 55.7\<rparr>, Accuracy = 50\<rparr>"

definition db_a :: store where
  "db_a = \<lparr>docs = [(key_a, data_a)], faults = [], oplog = []\<rparr>"

definition req_empty :: Request where
  "req_empty = \<lparr>HomeMobileCountryCode = 0, HomeMobileNetworkCode = 0, RadioType = [],
     CellTowers = [], WifiAccessPoints = []\<rparr>"

definition req_wifi :: Request where
  "req_wifi = \<lparr>HomeMobileCountryCode = 0, HomeMobileNetworkCode = 0, RadioType = [],
     CellTowers = [], WifiAccessPoints = [''01:23:45:67:89:ab'']\<rparr>"

text \<open>A second tower of the same network, and a tower of another network.\<close>

definition tower_b :: CellTower where
  "tower_b = \<lparr>MobileCountryCode = 250, MobileNetworkCode = 2, LocationAreaCode = 7743,
     CellId = 39696, SignalStrength = - 81\<rparr>"

definition key_b :: Key where
  "key_b = \<lparr>radio = ''gsm'', mcc = 250, mnc = 2, lac = 7743, cell = 39696\<rparr>"

definition data_b :: Data where
  "data_b = \<lparr>Location = \<lparr>Longitude = 37.61, Latitude = 55.71\<rparr>, Accuracy = 70\<rparr>"

definition tower_c :: CellTower where
  "tower_c = \<lparr>MobileCountryCode = 255, MobileNetworkCode = 1, LocationAreaCode = 100,
     CellId = 200, SignalStrength = - 91\<rparr>"

definition key_c :: Key where
  "key_c = \<lparr>radio = ''gsm'', mcc = 255, mnc = 1, lac = 100, cell = 200\<rparr>"

definition data_c :: Data where
  "data_c = \<lparr>Location = \<lparr>Longitude = 30.5, Latitude = 50.4\<rparr>, Accuracy = 100\<rparr>"

definition db_ab :: store where
  "db_ab = \<lparr>docs = [(key_a, data_a), (key_b, data_b)], faults = [], oplog = []\<rparr>"

definition db_ac :: store where
  "db_ac = \<lparr>docs = [(key_a, data_a), (key_c, data_c)], faults = [], oplog = []\<rparr>"

definition db_c :: store where
  "db_c = \<lparr>docs = [(key_c, data_c)], faults = [], oplog = []\<rparr>"

text \<open>A store whose server is down, and an empty one that works.\<close>

definition db_down :: store where
  "db_down = \<lparr>docs = [(key_a, data_a)], faults = [Some ''no reachable servers''], oplog = []\<rparr>"

definition db_void :: store where
  "db_void = \<lparr>docs = [], faults = [], oplog = []\<rparr>"

definition towers_request :: "CellTower option list \<Rightarrow> Request" where
  "towers_request ts = \<lparr>HomeMobileCountryCode = 0, HomeMobileNetworkCode = 0, RadioType = [],
     CellTowers = ts, WifiAccessPoints = []\<rparr>"

definition req_a :: Request where
  "req_a = towers_request [Some tower_a]"

definition req_c :: Request where
  "req_c = towers_request [Some tower_c]"

definition req_ab :: Request where
  "req_ab = towers_request [Some tower_a, Some tower_b]"

definition req_ac :: Request where
  "req_ac = towers_request [Some tower_a, Some tower_c]"

definition req_ca :: Request where
  "req_ca = towers_request [Some tower_c, Some tower_a]"

definition req_home :: Request where
  "req_home = \<lparr>HomeMobileCountryCode = 250, HomeMobileNetworkCode = 2, RadioType = ''gsm'',
     CellTowers = [Some tower_a, Some tower_c], WifiAccessPoints = []\<rparr>"

text \<open>
  A data file of two rows after the header (the second with too few samples), one whose
  only row is that second one, library functions that know the texts of these rows, and
  the flags of a full import.
\<close>

definition csv_header :: "string list" where
  "csv_header = [''radio'', ''mcc'', ''net'', ''area'', ''cell'', ''unit'', ''lon'', ''lat'',
     ''range'', ''samples'']"

definition row_a :: "string list" where
  "row_a = [''GSM'', ''250'', ''2'', ''7743'', ''22517'', ''0'', ''37.6'', ''55.7'', ''50'', ''10'']"

definition row_few :: "string list" where
  "row_few = [''GSM'', ''250'', ''2'', ''7743'', ''39696'', ''0'', ''37.61'', ''55.71'', ''70'', ''3'']"

definition rows_a :: "(string + string list) list" where
  "rows_a = [Inr csv_header, Inr row_a, Inr row_few]"

definition rows_few :: "(string + string list) list" where
  "rows_few = [Inr csv_header, Inr row_few]"

definition env_sample :: env where
  "env_sample = \<lparr>
     strings_ToLower = (\<lambda>s. if s = ''GSM'' then ''gsm'' else s),
     strconv_ParseInt = map_of [(''10'', 10), (''3'', 3)],
     strconv_ParseUint = (\<lambda>bits. map_of [(''250'', 250), (''2'', 2), (''7743'', 7743),
       (''22517'', 22517), (''39696'', 39696)]),
     strconv_ParseFloat = map_of [(''37.6'', 37.6), (''55.7'', 55.7), (''50'', 50),
       (''37.61'', 37.61), (''55.71'', 55.71), (''70'', 70)]\<rparr>"

definition flags_full :: flags where
  "flags_full = \<lparr>filterRadio = {''gsm''}, filterCountry = {250}, minSamples = 5,
     filename = ''cell_towers.csv''\<rparr>"

section \<open>The empty-request guard\<close>

text \<open>
  C1. A request that names no cell tower and no wifi access point makes both \<open>GetCells\<close>
  and \<open>Get\<close> return \<open>ErrEmptyRequest\<close>; the store comes back as it was, with nothing
  added to its operation log: no store access.
\<close>

theorem empty_request_error:
  assumes "CellTowers req = []" and "WifiAccessPoints req = []"
  shows "GetCells db req = (Return ([], Some ErrEmptyRequest), db)
       \<and> Get db req = (Return (Inl ErrEmptyRequest), db)"
  using assms by (simp add: GetCells_def Get_def)

theorem empty_request_error_witness:
  "CellTowers req_empty = [] \<and> WifiAccessPoints req_empty = []
   \<and> GetCells db_a req_empty = (Return ([], Some ErrEmptyRequest), db_a)
   \<and> Get db_a req_empty = (Return (Inl ErrEmptyRequest), db_a)"
  using empty_request_error [of req_empty db_a] by (simp add: req_empty_def)

text \<open>
  C4. A request with no cell tower, at least one wifi access point and home country code
  0 passes the guard; \<open>GetCells\<close> then reads \<open>req.CellTowers[0]\<close> of the empty slice and
  panics with an index out of range, before any store access, instead of returning an
  error; so does \<open>Get\<close>, which calls it.
\<close>

theorem wifi_only_request_panics:
  assumes "CellTowers req = []" and "WifiAccessPoints req \<noteq> []"
    and "HomeMobileCountryCode req = 0"
  shows "GetCells db req = (Panic IndexOutOfRange, db) \<and> Get db req = (Panic IndexOutOfRange, db)"
  using assms by (simp add: GetCells_def Get_def first_tower_def)

theorem wifi_only_request_panics_witness:
  "CellTowers req_wifi = [] \<and> WifiAccessPoints req_wifi \<noteq> []
   \<and> HomeMobileCountryCode req_wifi = 0
   \<and> GetCells db_a req_wifi = (Panic IndexOutOfRange, db_a)
   \<and> Get db_a req_wifi = (Panic IndexOutOfRange, db_a)"
  using wifi_only_request_panics [of req_wifi db_a] by (simp add: req_wifi_def)

section \<open>Lookups on the sample stores\<close>

lemma GetCells_db_a_req_c:
  "GetCells db_a req_c = (Return ([], None), db_a\<lparr>oplog := [OpFind]\<rparr>)"
  by (simp add: GetCells_def req_c_def towers_request_def db_a_def first_tower_def tower_c_def
      key_a_def coll_Find_def send_def matches_def DefaultRadioType_def Let_def)

lemma GetCells_db_a_req_a:
  "GetCells db_a req_a = (Return ([data_a], None), db_a\<lparr>oplog := [OpFind]\<rparr>)"
  by (simp add: GetCells_def req_a_def towers_request_def db_a_def first_tower_def tower_a_def
      key_a_def coll_Find_def send_def matches_def DefaultRadioType_def Let_def)

lemma GetCells_db_ab_req_ab:
  "GetCells db_ab req_ab = (Return ([data_a, data_b], None), db_ab\<lparr>oplog := [OpFind]\<rparr>)"
  by (simp add: GetCells_def req_ab_def towers_request_def db_ab_def first_tower_def tower_a_def
      tower_b_def key_a_def key_b_def coll_Find_def send_def matches_def DefaultRadioType_def Let_def)

lemma GetCells_db_ac_req_ac:
  "GetCells db_ac req_ac = (Return ([data_a], None), db_ac\<lparr>oplog := [OpFind]\<rparr>)"
  by (simp add: GetCells_def req_ac_def towers_request_def db_ac_def first_tower_def tower_a_def
      tower_c_def key_a_def key_c_def coll_Find_def send_def matches_def DefaultRadioType_def Let_def)

lemma GetCells_db_ac_req_ca:
  "GetCells db_ac req_ca = (Return ([data_c], None), db_ac\<lparr>oplog := [OpFind]\<rparr>)"
  by (simp add: GetCells_def req_ca_def towers_request_def db_ac_def first_tower_def tower_a_def
      tower_c_def key_a_def key_c_def coll_Find_def send_def matches_def DefaultRadioType_def Let_def)

section \<open>An empty match set\<close>

text \<open>
  C3. When \<open>GetCells\<close> succeeds with no record, \<open>Get\<close> returns no error (so never
  \<open>ErrNotFound\<close>): both sums are 0, the count is 0, the mean is 0/0, that is NaN, for
  the latitude and for the longitude, the second loop has nothing to visit, and the
  response carries that point with accuracy 0.
\<close>

theorem no_match_returns_nan_point:
  assumes "GetCells db req = (Return ([], None), db')"
  shows "Get db req = (Return (Inr \<lparr>Lat = NaN, Lng = NaN, resp_Accuracy = Num 0\<rparr>), db')"
  using assms by (simp add: Get_def)

theorem no_match_returns_nan_point_witness:
  "GetCells db_a req_c = (Return ([], None), db_a\<lparr>oplog := [OpFind]\<rparr>)
   \<and> Get db_a req_c
       = (Return (Inr \<lparr>Lat = NaN, Lng = NaN, resp_Accuracy = Num 0\<rparr>), db_a\<lparr>oplog := [OpFind]\<rparr>)"
  using no_match_returns_nan_point [OF GetCells_db_a_req_c] GetCells_db_a_req_c by simp

section \<open>The haversine term\<close>

lemma sin_sq_half: "(sin (x / 2))\<^sup>2 = (1 - cos x) / 2" for x :: real
  using cos_double_sin [of "x / 2"] by simp

lemma cos_sq_half: "(cos (x / 2))\<^sup>2 = (1 + cos x) / 2" for x :: real
  using cos_double_cos [of "x / 2"] by simp

lemma hav_id: "(sin ((q - p) / 2))\<^sup>2 + cos p * cos q = (cos ((p + q) / 2))\<^sup>2" for p q :: real
proof -
  have 1: "cos p * cos q = (cos (p - q) + cos (p + q)) / 2" by (rule cos_times_cos)
  have 2: "cos (p - q) = cos (q - p)" using cos_minus [of "q - p"] by simp
  have 3: "(sin ((q - p) / 2))\<^sup>2 = (1 - cos (q - p)) / 2" by (rule sin_sq_half)
  have 4: "(cos ((p + q) / 2))\<^sup>2 = (1 + cos (p + q)) / 2" by (rule cos_sq_half)
  show ?thesis unfolding 1 2 3 4 by argo
qed

lemma sin_sq_le_1: "(sin y)\<^sup>2 \<le> 1" for y :: real
  using sin_cos_squared_add [of y] zero_le_power2 [of "cos y"] by linarith

text \<open>
  The number under the square root is never negative, whatever the coordinates: it lies
  between \<open>sin\<^sup>2\<close> of the half latitude difference and \<open>cos\<^sup>2\<close> of the half latitude sum.
\<close>

lemma hav_nonneg:
  "(0::real) \<le> (sin ((q - p) / 2))\<^sup>2 + cos p * cos q * (sin y)\<^sup>2" (is "0 \<le> ?a")
proof -
  define s where "s = (sin y)\<^sup>2"
  define u where "u = (sin ((q - p) / 2))\<^sup>2"
  define v where "v = (cos ((p + q) / 2))\<^sup>2"
  have s: "0 \<le> s" "s \<le> 1" by (simp_all add: s_def sin_sq_le_1)
  have u: "0 \<le> u" and v: "0 \<le> v" by (simp_all add: u_def v_def)
  have uv: "u + cos p * cos q = v" unfolding u_def v_def by (rule hav_id)
  have "?a = u + (v - u) * s" using uv by (simp add: s_def u_def)
  also have "\<dots> = (1 - s) * u + s * v" by (simp add: algebra_simps)
  finally have "?a = (1 - s) * u + s * v" .
  moreover have "0 \<le> (1 - s) * u + s * v"
    using s u v by (intro add_nonneg_nonneg mult_nonneg_nonneg) simp_all
  ultimately show ?thesis by simp
qed

lemma haversine_sym: "haversine p1 p2 = haversine p2 p1"
proof -
  have sq: "(sin ((y - x) / 2))\<^sup>2 = (sin ((x - y) / 2))\<^sup>2" for x y :: real
  proof -
    have "(y - x) / 2 = - ((x - y) / 2)" by argo
    then have "sin ((y - x) / 2) = - sin ((x - y) / 2)" by (simp only: sin_minus)
    then show ?thesis by simp
  qed
  show ?thesis
    unfolding haversine_def Let_def
    by (simp only: sq [of "radians (Latitude p1)"] sq [of "radians (Longitude p1)"]
        mult.commute [of "cos (radians (Latitude p1))"])
qed

lemma haversine_nonneg: "0 \<le> haversine p1 p2"
proof -
  define a where "a = (sin ((radians (Latitude p2) - radians (Latitude p1)) / 2))\<^sup>2 +
     cos (radians (Latitude p1)) * cos (radians (Latitude p2))
       * (sin ((radians (Longitude p2) - radians (Longitude p1)) / 2))\<^sup>2"
  have "0 \<le> a" unfolding a_def by (rule hav_nonneg)
  then have "0 \<le> min 1 (sqrt a)" by simp
  moreover have "min 1 (sqrt a) \<le> 1" by simp
  ultimately have "0 \<le> arcsin (min 1 (sqrt a))" by (intro arcsin_nonneg) simp
  then show ?thesis unfolding haversine_def Let_def a_def [symmetric] by simp
qed

lemma haversine_same: "haversine p p = 0"
  by (simp add: haversine_def)

text \<open>
  On finite arguments the loop body computes, without ever meeting NaN, the haversine
  distance to the mean point plus the cell's own range.
\<close>

lemma cell_dist_Num:
  "cell_dist (Num lon) (Num lat) c =
     Num (haversine \<lparr>Longitude = lon, Latitude = lat\<rparr> (Location c) + Accuracy c)"
proof -
  define p where "p = radians lat"
  define q where "q = radians (Latitude (Location c))"
  define y where "y = (radians (Longitude (Location c)) - radians lon) / 2"
  define a where "a = (sin ((q - p) / 2))\<^sup>2 + cos p * cos q * (sin y)\<^sup>2"
  have a0: "0 \<le> a" unfolding a_def by (rule hav_nonneg)
  have e1: "pi / 180 * (Latitude (Location c) - lat) / 2 = (q - p) / 2"
    unfolding p_def q_def radians_def by argo
  have e2: "pi / 180 * (Longitude (Location c) - lon) / 2 = y"
    unfolding y_def radians_def by argo
  have e3: "pi / 180 * lat = p" by (simp add: p_def radians_def)
  have e4: "pi / 180 * Latitude (Location c) = q" by (simp add: q_def radians_def)
  have "0 \<le> sqrt a" using a0 by simp
  then have m: "\<not> min 1 (sqrt a) < - 1" "\<not> 1 < min 1 (sqrt a)" by linarith+
  have "cell_dist (Num lon) (Num lat) c =
      fadd (fmul (Num (2 * EARTH_RADIUS)) (math_Asin (math_Min (Num 1) (math_Sqrt (Num a)))))
        (Num (Accuracy c))"
    unfolding cell_dist_def Let_def fsub_def a_def
    by (simp only: fneg.simps fadd.simps fmul.simps fdiv.simps math_Sin.simps math_Cos.simps
         math_Pow_2.simps e1 e2 e3 e4 minus_real_def [symmetric] if_False) simp
  also have "\<dots> = Num (2 * EARTH_RADIUS * arcsin (min 1 (sqrt a)) + Accuracy c)"
    using a0 m by simp
  also have "2 * EARTH_RADIUS * arcsin (min 1 (sqrt a))
      = haversine \<lparr>Longitude = lon, Latitude = lat\<rparr> (Location c)"
    unfolding haversine_def Let_def a_def p_def q_def y_def EARTH_RADIUS_def by simp
  finally show ?thesis .
qed

section \<open>The two loops of Get\<close>

lemma sum_loop_Num:
  "sum_loop cells (Num x, Num y) =
     (Num (x + sum_list (map (\<lambda>c. Longitude (Location c)) cells)),
      Num (y + sum_list (map (\<lambda>c. Latitude (Location c)) cells)))"
  by (induction cells arbitrary: x y) (simp_all add: add.assoc)

lemma accuracy_loop_Num:
  "accuracy_loop (Num lon) (Num lat) cells (Num acc) =
     Num (foldl (\<lambda>a c. max a (haversine \<lparr>Longitude = lon, Latitude = lat\<rparr> (Location c) + Accuracy c))
       acc cells)"
proof (induction cells arbitrary: acc)
  case Nil
  show ?case by simp
next
  case (Cons c cells)
  show ?case by (simp add: cell_dist_Num Cons.IH max_def)
qed

lemma foldl_max_Max:
  "foldl (\<lambda>a c. max a (f c)) acc cells = Max (insert (acc::real) (f ` set cells))"
proof (induction cells arbitrary: acc)
  case Nil
  show ?case by simp
next
  case (Cons c cells)
  have "Max (insert (max acc (f c)) (f ` set cells))
      = Max (insert acc (insert (f c) (f ` set cells)))"
  proof (cases "cells = []")
    case True
    then show ?thesis by simp
  next
    case False
    then have ne: "f ` set cells \<noteq> {}" by simp
    have fin: "finite (f ` set cells)" by simp
    show ?thesis
      by (simp add: Max_insert [OF fin ne] Max_insert [of "insert (f c) (f ` set cells)"] max.assoc)
  qed
  then show ?case by (simp add: Cons.IH)
qed

text \<open>
  The response of \<open>Get\<close> on a non-empty match set: the mean point, and the larger of 0
  (the start value of \<open>accuracy\<close>) and the maximum the specification describes.
\<close>

lemma Get_matched:
  assumes "GetCells db req = (Return (cells, None), db')" and "cells \<noteq> []"
  shows "Get db req =
    (Return (Inr \<lparr>Lat = Num (Latitude (mean_point cells)), Lng = Num (Longitude (mean_point cells)),
       resp_Accuracy = Num (max 0 (spec_accuracy cells))\<rparr>), db')"
proof -
  let ?lons = "sum_list (map (\<lambda>c. Longitude (Location c)) cells)"
  let ?lats = "sum_list (map (\<lambda>c. Latitude (Location c)) cells)"
  let ?m = "mean_point cells"
  have n: "real (length cells) \<noteq> 0" using assms(2) by simp
  have s: "sum_loop cells (Num 0, Num 0) = (Num ?lons, Num ?lats)"
    by (simp add: sum_loop_Num)
  have mp: "\<lparr>Longitude = Longitude ?m, Latitude = Latitude ?m\<rparr> = ?m"
    by simp
  have "accuracy_loop (Num (Longitude ?m)) (Num (Latitude ?m)) cells (Num 0)
      = Num (Max (insert 0 ((\<lambda>c. haversine ?m (Location c) + Accuracy c) ` set cells)))"
    by (simp only: accuracy_loop_Num foldl_max_Max mp)
  also have "(\<lambda>c. haversine ?m (Location c) + Accuracy c)
      = (\<lambda>c. haversine (Location c) ?m + Accuracy c)"
    by (simp add: haversine_sym)
  also have "Max (insert 0 ((\<lambda>c. haversine (Location c) ?m + Accuracy c) ` set cells))
      = max 0 (spec_accuracy cells)"
    unfolding spec_accuracy_def using assms(2) by (subst Max_insert) simp_all
  finally have a: "accuracy_loop (Num (Longitude ?m)) (Num (Latitude ?m)) cells (Num 0)
      = Num (max 0 (spec_accuracy cells))" .
  have d1: "fdiv (Num ?lons) (Num (real (length cells))) = Num (Longitude ?m)"
    using n by (simp add: mean_point_def)
  have d2: "fdiv (Num ?lats) (Num (real (length cells))) = Num (Latitude ?m)"
    using n by (simp add: mean_point_def)
  show ?thesis
    unfolding Get_def assms(1) by (simp only: prod.case outcome.case option.case s Let_def d1 d2 a)
qed

lemma mean_point_single: "mean_point [d] = Location d"
  by (simp add: mean_point_def)

lemma spec_accuracy_single: "spec_accuracy [d] = Accuracy d"
  by (simp add: spec_accuracy_def mean_point_single haversine_same)

lemma Get_single:
  assumes "GetCells db req = (Return ([d], None), db')"
  shows "Get db req =
    (Return (Inr \<lparr>Lat = Num (Latitude (Location d)), Lng = Num (Longitude (Location d)),
       resp_Accuracy = Num (max 0 (Accuracy d))\<rparr>), db')"
  using Get_matched [OF assms] by (simp add: mean_point_single spec_accuracy_single)

section \<open>The accuracy radius\<close>

text \<open>
  With ranges that are not negative the maximum of distance plus range is not negative
  either, so the start value 0 of \<open>accuracy\<close> does not show in the result.
\<close>

lemma spec_accuracy_nonneg:
  assumes "cells \<noteq> []" and "\<forall>d \<in> set cells. 0 \<le> Accuracy d"
  shows "0 \<le> spec_accuracy cells"
proof -
  from assms(1) obtain d where d: "d \<in> set cells" by (cases cells) auto
  have "haversine (Location d) (mean_point cells) + Accuracy d \<le> spec_accuracy cells"
    unfolding spec_accuracy_def using d by (intro Max_ge) auto
  moreover have "0 \<le> haversine (Location d) (mean_point cells)" by (rule haversine_nonneg)
  moreover have "0 \<le> Accuracy d" using assms(2) d by simp
  ultimately show ?thesis by linarith
qed

text \<open>
  C2. When \<open>GetCells\<close> succeeds with a non-empty match set (of stored records, whose
  ranges are not negative), the accuracy radius that \<open>Get\<close> returns is the maximum, over
  the matched records, of the haversine distance (sphere of radius 6,378,137 m, \<open>\<surd>a\<close>
  clamped to 1) between the record's point and the mean point plus the record's own
  range; the point returned is the mean point.
\<close>

theorem accuracy_is_spec_maximum:
  assumes "GetCells db req = (Return (cells, None), db')" and "cells \<noteq> []"
    and "\<forall>d \<in> set cells. 0 \<le> Accuracy d"
  shows "Get db req =
    (Return (Inr \<lparr>Lat = Num (Latitude (mean_point cells)), Lng = Num (Longitude (mean_point cells)),
       resp_Accuracy = Num (spec_accuracy cells)\<rparr>), db')"
  using Get_matched [OF assms(1,2)] spec_accuracy_nonneg [OF assms(2,3)] by simp

theorem accuracy_is_spec_maximum_witness:
  "GetCells db_ab req_ab = (Return ([data_a, data_b], None), db_ab\<lparr>oplog := [OpFind]\<rparr>)
   \<and> [data_a, data_b] \<noteq> []
   \<and> 0 \<le> Accuracy data_a \<and> 0 \<le> Accuracy data_b
   \<and> Get db_ab req_ab =
      (Return (Inr \<lparr>Lat = Num (Latitude (mean_point [data_a, data_b])),
         Lng = Num (Longitude (mean_point [data_a, data_b])),
         resp_Accuracy = Num (spec_accuracy [data_a, data_b])\<rparr>), db_ab\<lparr>oplog := [OpFind]\<rparr>)"
proof -
  have nn: "\<forall>d \<in> set [data_a, data_b]. 0 \<le> Accuracy d"
    by (simp add: data_a_def data_b_def)
  show ?thesis
    using accuracy_is_spec_maximum [OF GetCells_db_ab_req_ab _ nn] GetCells_db_ab_req_ab nn
    by simp
qed

text \<open>
  C8. When exactly one stored record matches (its range is not negative), the point
  returned is that record's point, exactly, and the accuracy radius is the record's
  range: the distance term is 0.
\<close>

theorem single_match_exact:
  assumes "GetCells db req = (Return ([d], None), db')" and "0 \<le> Accuracy d"
  shows "Get db req =
      (Return (Inr \<lparr>Lat = Num (Latitude (Location d)), Lng = Num (Longitude (Location d)),
         resp_Accuracy = Num (Accuracy d)\<rparr>), db')
    \<and> haversine (Location d) (mean_point [d]) = 0"
  using Get_single [OF assms(1)] assms(2)
  by (simp add: mean_point_single haversine_same)

theorem single_match_exact_witness:
  "GetCells db_a req_a = (Return ([data_a], None), db_a\<lparr>oplog := [OpFind]\<rparr>)
   \<and> 0 \<le> Accuracy data_a
   \<and> Get db_a req_a =
      (Return (Inr \<lparr>Lat = Num 55.7, Lng = Num 37.6, resp_Accuracy = Num 50\<rparr>),
       db_a\<lparr>oplog := [OpFind]\<rparr>)"
proof -
  have nn: "0 \<le> Accuracy data_a" by (simp add: data_a_def)
  show ?thesis
    using single_match_exact [OF GetCells_db_a_req_a nn] GetCells_db_a_req_a nn
    by (simp add: data_a_def)
qed

text \<open>
  C9. For a non-empty match set whose ranges are not negative, \<open>Get\<close> returns an accuracy
  radius that is at least the range of every matched record. (The proof does not need
  the sign of the ranges: the radius is at least 0 and at least each distance plus range.)
\<close>

theorem accuracy_covers_every_record:
  assumes "GetCells db req = (Return (cells, None), db')" and "cells \<noteq> []"
    and "\<forall>d \<in> set cells. 0 \<le> Accuracy d"
  shows "Get db req =
      (Return (Inr \<lparr>Lat = Num (Latitude (mean_point cells)), Lng = Num (Longitude (mean_point cells)),
         resp_Accuracy = Num (max 0 (spec_accuracy cells))\<rparr>), db')
    \<and> (\<forall>d \<in> set cells. Accuracy d \<le> max 0 (spec_accuracy cells))"
proof -
  have "Accuracy d \<le> max 0 (spec_accuracy cells)" if d: "d \<in> set cells" for d
  proof -
    have "haversine (Location d) (mean_point cells) + Accuracy d \<le> spec_accuracy cells"
      unfolding spec_accuracy_def using d by (intro Max_ge) auto
    moreover have "0 \<le> haversine (Location d) (mean_point cells)" by (rule haversine_nonneg)
    ultimately show ?thesis by linarith
  qed
  with Get_matched [OF assms(1,2)] show ?thesis by simp
qed

theorem accuracy_covers_every_record_witness:
  "GetCells db_ab req_ab = (Return ([data_a, data_b], None), db_ab\<lparr>oplog := [OpFind]\<rparr>)
   \<and> [data_a, data_b] \<noteq> []
   \<and> 0 \<le> Accuracy data_a \<and> 0 \<le> Accuracy data_b
   \<and> Get db_ab req_ab =
      (Return (Inr \<lparr>Lat = Num (Latitude (mean_point [data_a, data_b])),
         Lng = Num (Longitude (mean_point [data_a, data_b])),
         resp_Accuracy = Num (max 0 (spec_accuracy [data_a, data_b]))\<rparr>), db_ab\<lparr>oplog := [OpFind]\<rparr>)
   \<and> Accuracy data_a \<le> max 0 (spec_accuracy [data_a, data_b])
   \<and> Accuracy data_b \<le> max 0 (spec_accuracy [data_a, data_b])"
proof -
  have nn: "\<forall>d \<in> set [data_a, data_b]. 0 \<le> Accuracy d"
    by (simp add: data_a_def data_b_def)
  show ?thesis
    using accuracy_covers_every_record [OF GetCells_db_ab_req_ab _ nn] GetCells_db_ab_req_ab nn
    by simp
qed

section \<open>The order of the towers\<close>

lemma cellsData_eq:
  "cellsData ts = (if None \<in> set ts then Panic NilDereference
                   else Return (map (\<lambda>t. (LocationAreaCode (the t), CellId (the t))) ts))"
  by (induction ts rule: cellsData.induct) auto

lemma first_tower_perm:
  assumes "mset ts' = mset ts" and "map_option f (hd ts') = map_option f (hd ts)"
  shows "first_tower f ts' = first_tower f ts"
proof (cases ts)
  case Nil
  with assms(1) show ?thesis by simp
next
  case (Cons t rest)
  with assms(1) have "ts' \<noteq> []" by auto
  then obtain t' rest' where ts': "ts' = t' # rest'" by (cases ts') auto
  with Cons assms(2) show ?thesis
    by (cases t; cases t') (simp_all add: first_tower_def)
qed

lemma coll_Find_set:
  assumes "set (q_or q') = set (q_or q)" and "q_radio q' = q_radio q"
    and "q_mcc q' = q_mcc q" and "q_mnc q' = q_mnc q"
  shows "coll_Find db q' = coll_Find db q"
proof -
  have m: "matches q' = matches q" using assms by (simp add: matches_def fun_eq_iff)
  show ?thesis unfolding coll_Find_def by (simp only: m)
qed

lemma GetCells_perm:
  assumes p: "mset ts' = mset (CellTowers req)"
    and c: "HomeMobileCountryCode req \<noteq> 0
        \<or> map_option MobileCountryCode (hd ts') = map_option MobileCountryCode (hd (CellTowers req))"
    and n: "HomeMobileNetworkCode req \<noteq> 0
        \<or> map_option MobileNetworkCode (hd ts') = map_option MobileNetworkCode (hd (CellTowers req))"
  shows "GetCells db (req\<lparr>CellTowers := ts'\<rparr>) = GetCells db req"
proof -
  let ?ts = "CellTowers req"
  have len: "length ts' = length ?ts" using p by (rule mset_eq_length)
  have st: "set ts' = set ?ts" using p by (rule mset_eq_setD)
  have m1: "(if HomeMobileCountryCode req = 0 then first_tower MobileCountryCode ts'
             else Return (HomeMobileCountryCode req))
     = (if HomeMobileCountryCode req = 0 then first_tower MobileCountryCode ?ts
        else Return (HomeMobileCountryCode req))"
    using c first_tower_perm [OF p] by auto
  have m2: "(if HomeMobileNetworkCode req = 0 then first_tower MobileNetworkCode ts'
             else Return (HomeMobileNetworkCode req))
     = (if HomeMobileNetworkCode req = 0 then first_tower MobileNetworkCode ?ts
        else Return (HomeMobileNetworkCode req))"
    using n first_tower_perm [OF p] by auto
  have f: "coll_Find db \<lparr>q_radio = r, q_mcc = a, q_mnc = b, q_or = map g ts'\<rparr>
         = coll_Find db \<lparr>q_radio = r, q_mcc = a, q_mnc = b, q_or = map g ?ts\<rparr>" for r a b g
    by (rule coll_Find_set) (simp_all add: st)
  have sel: "CellTowers (req\<lparr>CellTowers := ts'\<rparr>) = ts'"
    "WifiAccessPoints (req\<lparr>CellTowers := ts'\<rparr>) = WifiAccessPoints req"
    "RadioType (req\<lparr>CellTowers := ts'\<rparr>) = RadioType req"
    "HomeMobileCountryCode (req\<lparr>CellTowers := ts'\<rparr>) = HomeMobileCountryCode req"
    "HomeMobileNetworkCode (req\<lparr>CellTowers := ts'\<rparr>) = HomeMobileNetworkCode req"
    by simp_all
  show ?thesis
    unfolding GetCells_def Let_def
    by (simp only: sel len m1 m2 cellsData_eq st) (simp add: f split: outcome.split)
qed

text \<open>
  C7, as stated, fails: with home codes 0 the country and network codes of the lookup
  are those of the first tower. The store holds one record of network 250/2 and one of
  network 255/1; the two requests name the same two towers in the two orders, and get
  two different points and radii.
\<close>

theorem tower_order_changes_response:
  "mset (CellTowers req_ca) = mset (CellTowers req_ac)
   \<and> req_ca = req_ac\<lparr>CellTowers := CellTowers req_ca\<rparr>
   \<and> fst (Get db_ac req_ac)
       = Return (Inr \<lparr>Lat = Num 55.7, Lng = Num 37.6, resp_Accuracy = Num 50\<rparr>)
   \<and> fst (Get db_ac req_ca)
       = Return (Inr \<lparr>Lat = Num 50.4, Lng = Num 30.5, resp_Accuracy = Num 100\<rparr>)"
proof -
  have "mset (CellTowers req_ca) = mset (CellTowers req_ac)"
    by (simp add: req_ca_def req_ac_def towers_request_def)
  moreover have "req_ca = req_ac\<lparr>CellTowers := CellTowers req_ca\<rparr>"
    by (simp add: req_ca_def req_ac_def towers_request_def)
  moreover have "fst (Get db_ac req_ac)
      = Return (Inr \<lparr>Lat = Num 55.7, Lng = Num 37.6, resp_Accuracy = Num 50\<rparr>)"
    by (simp add: Get_single [OF GetCells_db_ac_req_ac]) (simp add: data_a_def)
  moreover have "fst (Get db_ac req_ca)
      = Return (Inr \<lparr>Lat = Num 50.4, Lng = Num 30.5, resp_Accuracy = Num 100\<rparr>)"
    by (simp add: Get_single [OF GetCells_db_ac_req_ca]) (simp add: data_c_def)
  ultimately show ?thesis by simp
qed

text \<open>
  C7, amended. Permuting the towers of a request changes nothing in what \<open>Get\<close> returns
  (response, error or panic, and store) provided the codes the lookup falls back to stay
  the same: the home country code is not 0 or the first tower of the permuted list has
  the country code of the first tower of the original list, and likewise for the network
  code.
\<close>

theorem tower_order_irrelevant:
  assumes "mset ts' = mset (CellTowers req)"
    and "HomeMobileCountryCode req \<noteq> 0
        \<or> map_option MobileCountryCode (hd ts') = map_option MobileCountryCode (hd (CellTowers req))"
    and "HomeMobileNetworkCode req \<noteq> 0
        \<or> map_option MobileNetworkCode (hd ts') = map_option MobileNetworkCode (hd (CellTowers req))"
  shows "Get db (req\<lparr>CellTowers := ts'\<rparr>) = Get db req"
  unfolding Get_def by (simp only: GetCells_perm [OF assms])

theorem tower_order_irrelevant_witness:
  "mset [Some tower_c, Some tower_a] = mset (CellTowers req_home)
   \<and> HomeMobileCountryCode req_home \<noteq> 0 \<and> HomeMobileNetworkCode req_home \<noteq> 0
   \<and> Get db_ac (req_home\<lparr>CellTowers := [Some tower_c, Some tower_a]\<rparr>) = Get db_ac req_home"
  using tower_order_irrelevant [of "[Some tower_c, Some tower_a]" req_home db_ac]
  by (simp add: req_home_def)

section \<open>Store failures\<close>

text \<open>
  C10, as stated, fails for \<open>Records\<close>, which has no error result. On a store whose
  server is down \<open>coll.Count\<close> returns 0 and the error, and \<open>Records\<close> returns 0: what
  it returns on an empty store that works.
\<close>

theorem Records_drops_store_error:
  "fst (coll_Count db_down) = (0, Some (StoreError ''no reachable servers''))
   \<and> fst (Records db_down) = 0
   \<and> fst (coll_Count db_void) = (0, None)
   \<and> fst (Records db_void) = 0"
  by (simp add: Records_def coll_Count_def send_def db_down_def db_void_def)

text \<open>
  C10, amended. A failure of the store is returned unmodified by \<open>GetCells\<close> and by \<open>Get\<close>:
  if the server fails the coming operation with \<open>e\<close> and \<open>GetCells\<close> returns past its
  empty-request guard, the error it returns is that failure, and \<open>Get\<close> returns the same
  error. (\<open>Records\<close> returns only a count.)
\<close>

theorem store_error_propagated:
  assumes "faults db = Some e # fs" and "fst (GetCells db req) = Return (cells, err)"
    and "err \<noteq> Some ErrEmptyRequest"
  shows "err = Some (StoreError e) \<and> fst (Get db req) = Return (Inl (StoreError e))"
proof -
  have f: "coll_Find db q
      = (([], Some (StoreError e)), db\<lparr>faults := fs, oplog := oplog db @ [OpFind]\<rparr>)" for q
    using assms(1) by (simp add: coll_Find_def send_def)
  have "err = Some (StoreError e)"
    using assms(2,3) unfolding GetCells_def Let_def f
    by (auto split: if_splits outcome.splits)
  moreover from this assms(2) have "fst (Get db req) = Return (Inl (StoreError e))"
    by (cases "GetCells db req") (simp add: Get_def)
  ultimately show ?thesis by simp
qed

theorem store_error_propagated_witness:
  "faults db_down = Some ''no reachable servers'' # []
   \<and> fst (GetCells db_down req_a) = Return ([], Some (StoreError ''no reachable servers''))
   \<and> Some (StoreError ''no reachable servers'') \<noteq> Some ErrEmptyRequest
   \<and> fst (Get db_down req_a) = Return (Inl (StoreError ''no reachable servers''))"
  using store_error_propagated [of db_down "''no reachable servers''" "[]" req_a "[]"
      "Some (StoreError ''no reachable servers'')"]
  by (simp add: GetCells_def req_a_def towers_request_def db_down_def first_tower_def tower_a_def
      coll_Find_def send_def)

section \<open>Properties of the import program\<close>

lemma set_upsert: "set (upsert k d ds) \<subseteq> insert (k, d) (set ds)"
  by (induction ds) (auto split: if_splits)

lemma set_foldl_upsert:
  "set (foldl (\<lambda>ds (k, d). upsert k d ds) ds ops) \<subseteq> set ds \<union> set ops"
proof (induction ops arbitrary: ds)
  case Nil
  show ?case by simp
next
  case (Cons kd ops)
  obtain k d where kd: "kd = (k, d)" by (cases kd)
  have "set (foldl (\<lambda>ds (k, d). upsert k d ds) (upsert k d ds) ops)
      \<subseteq> set (upsert k d ds) \<union> set ops"
    by (rule Cons.IH)
  also have "\<dots> \<subseteq> insert (k, d) (set ds) \<union> set ops"
    using set_upsert [of k d ds] by auto
  finally show ?case by (auto simp: kd)
qed

text \<open>A run whose loop ends with no accepted row sends \<open>EnsureIndex\<close> and nothing else.\<close>

lemma main_no_rows:
  assumes "read_loop E F rows loop_start = Return (Inr st)" and "counter st = 0"
  shows "main E F (Some rows) s =
     (Return (case fst (coll_EnsureIndex s) of Some e \<Rightarrow> IndexError e | None \<Rightarrow> NoRecords),
      s\<lparr>faults := tl (faults s), oplog := oplog s @ [OpEnsureIndex]\<rparr>)"
  using assms
  by (cases "faults s")
     (auto simp: main_def coll_EnsureIndex_def send_def split: option.splits)

text \<open>A full import that reaches the last line of \<open>main\<close>.\<close>

lemma main_completed:
  assumes loop: "read_loop E F rows loop_start = Return (Inr st)"
    and full: "\<not> strings_Contains (filename F) ''diff''"
    and compl: "main E F (Some rows) s = (Return (Completed n), s')"
  shows "0 < counter st \<and> docs s' = foldl (\<lambda>ds (k, d). upsert k d ds) [] (bulk st)
     \<and> oplog s' = oplog s @ [OpEnsureIndex, OpRemoveAll, OpBulkRun, OpCount]"
  using compl
  by (auto simp: main_def loop full coll_EnsureIndex_def coll_RemoveAll_def bulk_Run_def
      coll_Count_def send_def
      split: option.splits if_splits list.splits prod.splits)

text \<open>
  Full mode, at least one accepted row, a server that does not fail: the run completes.
\<close>

lemma main_full_no_faults:
  assumes "read_loop E F rows loop_start = Return (Inr st)"
    and "\<not> strings_Contains (filename F) ''diff''" and "0 < counter st" and "faults s = []"
  shows "main E F (Some rows) s =
     (Return (Completed (length (foldl (\<lambda>ds (k, d). upsert k d ds) [] (bulk st)))),
      s\<lparr>docs := foldl (\<lambda>ds (k, d). upsert k d ds) [] (bulk st),
        oplog := oplog s @ [OpEnsureIndex, OpRemoveAll, OpBulkRun, OpCount]\<rparr>)"
  using assms
  by (simp add: main_def coll_EnsureIndex_def coll_RemoveAll_def bulk_Run_def coll_Count_def
      send_def)

text \<open>\<open>counter\<close> counts the staged upserts, and each of them comes from a row of the file.\<close>

lemma read_loop_counter:
  assumes "read_loop E F rows st = Return (Inr st')" and "counter st = length (bulk st)"
  shows "counter st' = length (bulk st')"
  using assms
proof (induction rows arbitrary: st)
  case Nil
  then show ?case by simp
next
  case (Cons x rest)
  show ?case
  proof (cases x)
    case (Inl e)
    with Cons.prems show ?thesis by simp
  next
    case (Inr rec)
    with Cons.prems show ?thesis
      by (auto simp: Let_def split: if_splits outcome.splits option.splits dest!: Cons.IH)
  qed
qed

lemma read_loop_staged:
  assumes "read_loop E F rows st = Return (Inr st')" and "kd \<in> set (bulk st')"
  shows "kd \<in> set (bulk st)
       \<or> (\<exists>rec. Inr rec \<in> set rows \<and> process_row E F rec = Return (Some kd))"
  using assms
proof (induction rows arbitrary: st)
  case Nil
  then show ?case by simp
next
  case (Cons x rest)
  show ?case
  proof (cases x)
    case (Inl e)
    with Cons.prems show ?thesis by simp
  next
    case (Inr rec)
    from Cons.prems(1) obtain st2 where
      st2: "read_loop E F rest st2 = Return (Inr st')"
      and b: "bulk st2 = bulk st
          \<or> (\<exists>kd'. process_row E F rec = Return (Some kd') \<and> bulk st2 = bulk st @ [kd'])"
      unfolding Inr by (auto simp: Let_def split: if_splits outcome.splits option.splits)
    from Cons.IH [OF st2 Cons.prems(2)] b show ?thesis
      unfolding Inr by auto
  qed
qed

lemma read_loop_rows_a:
  "read_loop env_sample flags_full rows_a loop_start =
     Return (Inr \<lparr>lines = 3, counter = 1, bulk = [(key_a, data_a)], FieldsPerRecord = 10\<rparr>)"
  by (simp add: rows_a_def csv_header_def row_a_def row_few_def loop_start_def process_row_def
      with_field_def or_continue_def field_def env_sample_def flags_full_def key_a_def
      data_a_def Let_def)

lemma read_loop_rows_few:
  "read_loop env_sample flags_full rows_few loop_start =
     Return (Inr \<lparr>lines = 2, counter = 0, bulk = [], FieldsPerRecord = 10\<rparr>)"
  by (simp add: rows_few_def csv_header_def row_few_def loop_start_def process_row_def
      with_field_def or_continue_def field_def env_sample_def flags_full_def Let_def)

lemma flags_full_mode: "\<not> strings_Contains (filename flags_full) ''diff''"
  by (simp add: flags_full_def)

lemma main_rows_a:
  "main env_sample flags_full (Some rows_a) db_c =
     (Return (Completed 1),
      \<lparr>docs = [(key_a, data_a)], faults = [],
        oplog = [OpEnsureIndex, OpRemoveAll, OpBulkRun, OpCount]\<rparr>)"
  by (simp add: main_def read_loop_rows_a flags_full_mode coll_EnsureIndex_def coll_RemoveAll_def
      bulk_Run_def coll_Count_def send_def db_c_def)

lemma main_rows_few:
  "main env_sample flags_full (Some rows_few) db_c = (Return NoRecords, db_c\<lparr>oplog := [OpEnsureIndex]\<rparr>)"
  by (simp add: main_def read_loop_rows_few flags_full_mode coll_EnsureIndex_def send_def db_c_def)

text \<open>
  C5. Take a run in full mode (the file name does not contain \<open>diff\<close>) whose loop reaches
  the end of the file. If it accepted at least one row and the run completes, the
  documents of the store are the staged upserts applied to the empty collection: each
  of them is a staged record, built from a row of the file, and the server saw the delete
  before the bulk run. Such a run does complete when the server fails no operation. If
  the run accepted no row, the documents of the store are what they were.
\<close>

theorem full_import_replaces_store:
  assumes "read_loop E F rows loop_start = Return (Inr st)"
    and "\<not> strings_Contains (filename F) ''diff''"
  shows "(0 < counter st \<and> fst (main E F (Some rows) s) = Return (Completed n) \<longrightarrow>
            set (docs (snd (main E F (Some rows) s))) \<subseteq> set (bulk st)
          \<and> (\<forall>kd \<in> set (docs (snd (main E F (Some rows) s))).
                \<exists>rec. Inr rec \<in> set rows \<and> process_row E F rec = Return (Some kd))
          \<and> docs (snd (main E F (Some rows) s)) = foldl (\<lambda>ds (k, d). upsert k d ds) [] (bulk st)
          \<and> oplog (snd (main E F (Some rows) s))
              = oplog s @ [OpEnsureIndex, OpRemoveAll, OpBulkRun, OpCount])
       \<and> (0 < counter st \<and> faults s = [] \<longrightarrow>
            fst (main E F (Some rows) s)
              = Return (Completed (length (foldl (\<lambda>ds (k, d). upsert k d ds) [] (bulk st)))))
       \<and> (counter st = 0 \<longrightarrow> docs (snd (main E F (Some rows) s)) = docs s)"
proof (intro conjI impI)
  assume c: "counter st = 0"
  show "docs (snd (main E F (Some rows) s)) = docs s"
    by (simp add: main_no_rows [OF assms(1) c])
next
  assume "0 < counter st \<and> faults s = []"
  then show "fst (main E F (Some rows) s)
      = Return (Completed (length (foldl (\<lambda>ds (k, d). upsert k d ds) [] (bulk st))))"
    by (simp add: main_full_no_faults [OF assms])
next
  assume "0 < counter st \<and> fst (main E F (Some rows) s) = Return (Completed n)"
  then have m: "main E F (Some rows) s = (Return (Completed n), snd (main E F (Some rows) s))"
    by (simp add: prod_eq_iff)
  note r = main_completed [OF assms m]
  from r show d: "docs (snd (main E F (Some rows) s))
      = foldl (\<lambda>ds (k, d). upsert k d ds) [] (bulk st)" by simp
  from r show "oplog (snd (main E F (Some rows) s))
      = oplog s @ [OpEnsureIndex, OpRemoveAll, OpBulkRun, OpCount]" by simp
  show sub: "set (docs (snd (main E F (Some rows) s))) \<subseteq> set (bulk st)"
    unfolding d using set_foldl_upsert [of "[]" "bulk st"] by simp
  show "\<forall>kd \<in> set (docs (snd (main E F (Some rows) s))).
      \<exists>rec. Inr rec \<in> set rows \<and> process_row E F rec = Return (Some kd)"
  proof
    fix kd assume "kd \<in> set (docs (snd (main E F (Some rows) s)))"
    with sub have "kd \<in> set (bulk st)" by auto
    from read_loop_staged [OF assms(1) this] show
      "\<exists>rec. Inr rec \<in> set rows \<and> process_row E F rec = Return (Some kd)"
      by (simp add: loop_start_def)
  qed
qed

theorem full_import_replaces_store_witness:
  "read_loop env_sample flags_full rows_a loop_start =
      Return (Inr \<lparr>lines = 3, counter = 1, bulk = [(key_a, data_a)], FieldsPerRecord = 10\<rparr>)
   \<and> read_loop env_sample flags_full rows_few loop_start =
      Return (Inr \<lparr>lines = 2, counter = 0, bulk = [], FieldsPerRecord = 10\<rparr>)
   \<and> \<not> strings_Contains (filename flags_full) ''diff''
   \<and> docs db_c = [(key_c, data_c)] \<and> faults db_c = []
   \<and> fst (main env_sample flags_full (Some rows_a) db_c) = Return (Completed 1)
   \<and> docs (snd (main env_sample flags_full (Some rows_a) db_c)) = [(key_a, data_a)]
   \<and> oplog (snd (main env_sample flags_full (Some rows_a) db_c))
       = [OpEnsureIndex, OpRemoveAll, OpBulkRun, OpCount]
   \<and> docs (snd (main env_sample flags_full (Some rows_few) db_c)) = [(key_c, data_c)]"
proof -
  note a = full_import_replaces_store [OF read_loop_rows_a flags_full_mode,
      where n = 1 and s = db_c]
  note f = full_import_replaces_store [OF read_loop_rows_few flags_full_mode,
      where n = 1 and s = db_c]
  have c: "docs db_c = [(key_c, data_c)]" "faults db_c = []" "oplog db_c = []"
    by (simp_all add: db_c_def)
  from a c have 1: "fst (main env_sample flags_full (Some rows_a) db_c) = Return (Completed 1)"
    by simp
  from a 1 c have 2: "docs (snd (main env_sample flags_full (Some rows_a) db_c)) = [(key_a, data_a)]"
    and 3: "oplog (snd (main env_sample flags_full (Some rows_a) db_c))
       = [OpEnsureIndex, OpRemoveAll, OpBulkRun, OpCount]"
    by simp_all
  from f c have 4: "docs (snd (main env_sample flags_full (Some rows_few) db_c)) = [(key_c, data_c)]"
    by simp
  from 1 2 3 4 c read_loop_rows_a read_loop_rows_few flags_full_mode show ?thesis by simp
qed

text \<open>
  C6. A run that accepts no row mutates nothing: the documents of the store are what
  they were, and the only operation the server saw from the run is the \<open>EnsureIndex\<close> at
  its start, hence neither the delete nor the bulk run. This holds in full and in
  incremental mode.
\<close>

theorem no_rows_no_mutation:
  assumes "read_loop E F rows loop_start = Return (Inr st)" and "counter st = 0"
  shows "docs (snd (main E F (Some rows) s)) = docs s
       \<and> oplog (snd (main E F (Some rows) s)) = oplog s @ [OpEnsureIndex]"
  by (simp add: main_no_rows [OF assms])

theorem no_rows_no_mutation_witness:
  "read_loop env_sample flags_full rows_few loop_start =
      Return (Inr \<lparr>lines = 2, counter = 0, bulk = [], FieldsPerRecord = 10\<rparr>)
   \<and> docs (snd (main env_sample flags_full (Some rows_few) db_c)) = docs db_c
   \<and> oplog (snd (main env_sample flags_full (Some rows_few) db_c)) = [OpEnsureIndex]"
  using no_rows_no_mutation [OF read_loop_rows_few, where s = db_c] read_loop_rows_few
  by (simp add: db_c_def)

end
